theory Spec2Isabelle
  imports Complex_Main
begin

section \<open>Data model of \<open>si.units\<close>\<close>

text \<open>
  Python 2 has two string types; \<open>preferred_symbol\<close> tells them apart with
  \<open>isinstance(s, unicode)\<close>. A symbol or name is therefore a tagged string. Comparison
  (\<open>==\<close>) between the two kinds is by content for the ASCII strings used here.
\<close>

datatype pystr = Str string | Uni string

fun chars :: "pystr \<Rightarrow> string" where
  "chars (Str s) = s"
| "chars (Uni s) = s"

fun is_unicode :: "pystr \<Rightarrow> bool" where
  "is_unicode (Str s) = False"
| "is_unicode (Uni s) = True"

text \<open>
  The \<open>prefixes\<close> attribute is dynamically typed: a false value, \<open>True\<close>, one of the
  magic strings \<open>"kg"\<close>, \<open>"m2"\<close>, \<open>"m3"\<close>, or a sequence of prefix codes.
\<close>

datatype prefixes_t = PFalse | PTrue | PString string | PList "string list"

text \<open>
  \<open>SIUnit\<close>: the attributes set by \<open>__init__\<close>. The numeric value \<open>unit\<close> and the
  prefix factors are exact rationals. The attribute \<open>map\<close> is stored by \<open>__init__\<close> and
  never read in this module; it is left out.
\<close>

record SIUnit =
  unit :: rat
  symbol :: "pystr list"
  name :: "pystr list"
  description :: string
  prefixes :: prefixes_t

text \<open>A compound unit is a tuple of \<open>(prefix, unit, power)\<close> triples.\<close>

type_synonym triple = "rat \<times> SIUnit \<times> int"

type_synonym SICompoundUnit = "triple list"

text \<open>Every exception the module can raise is a value.\<close>

datatype error =
    ConsecutiveSlashes
  | CannotConvert string
  | IndexError
  | ValueError
  | AssertionError
  | NoUnicodeSymbol
  | NoAsciiSymbol
  | CannotRegister
  | PrefixError

section \<open>String primitives of Python\<close>

definition startswith :: "string \<Rightarrow> string \<Rightarrow> bool" where
  "startswith s p = (take (length p) s = p)"

definition endswith :: "string \<Rightarrow> string \<Rightarrow> bool" where
  "endswith s p = (drop (length s - length p) s = p \<and> length p \<le> length s)"

text \<open>\<open>p in s\<close>: the string \<open>p\<close> occurs somewhere in \<open>s\<close>.\<close>

fun contains :: "string \<Rightarrow> string \<Rightarrow> bool" where
  "contains [] p = (p = [])"
| "contains (c # s) p = (startswith (c # s) p \<or> contains s p)"

fun find_from :: "char \<Rightarrow> string \<Rightarrow> int \<Rightarrow> int" where
  "find_from c [] i = - 1"
| "find_from c (x # xs) i = (if x = c then i else find_from c xs (i + 1))"

text \<open>\<open>s.find(c)\<close>: the first index of \<open>c\<close>, or \<open>-1\<close>.\<close>

definition str_find :: "string \<Rightarrow> char \<Rightarrow> int" where
  "str_find s c = find_from c s 0"

text \<open>A slice bound: negative bounds count from the end, all bounds are clipped.\<close>

definition bound :: "string \<Rightarrow> int \<Rightarrow> nat" where
  "bound s i = (let n = int (length s) in nat (if i < 0 then max 0 (n + i) else min i n))"

text \<open>\<open>s[i:j]\<close> and \<open>s[i:]\<close>.\<close>

definition slice :: "string \<Rightarrow> int \<Rightarrow> int \<Rightarrow> string" where
  "slice s i j = take (bound s j - bound s i) (drop (bound s i) s)"

definition slice_from :: "string \<Rightarrow> int \<Rightarrow> string" where
  "slice_from s i = drop (bound s i) s"

definition digits :: string where
  "digits = ''0123456789''"

text \<open>
  \<open>int(c)\<close> for a one-character byte string: the value of a decimal digit; \<open>None\<close> is
  the \<open>ValueError\<close> raised for any other character.
\<close>

definition int_of_char :: "char \<Rightarrow> int option" where
  "int_of_char c = map_of (zip digits [0, 1, 2, 3, 4, 5, 6, 7, 8, 9]) c"

section \<open>The expression parser\<close>

text \<open>
  \<open>si.register.search_prefixed\<close> is outside this module. The parser takes it as a
  parameter: \<open>None\<close> is \<open>LookupError\<close>, \<open>Some (prefix, unit)\<close> the pair it returns.
\<close>

type_synonym registry = "string \<Rightarrow> (rat \<times> SIUnit) option"

text \<open>
  The inner loop \<open>for x in range(len(s), 0, -1)\<close>: the longest \<open>s[:x]\<close> the registry
  resolves, with its length; \<open>None\<close> when the loop runs into its \<open>else\<close>.
\<close>

fun search_from :: "registry \<Rightarrow> string \<Rightarrow> nat \<Rightarrow> (nat \<times> rat \<times> SIUnit) option" where
  "search_from reg s 0 = None"
| "search_from reg s (Suc x) =
     (case reg (take (Suc x) s) of
        Some pu \<Rightarrow> Some (Suc x, pu)
      | None \<Rightarrow> search_from reg s x)"

definition negate :: "triple list \<Rightarrow> triple list" where
  "negate inside = map (\<lambda>(prefix, unit, power). (prefix, unit, - power)) inside"

text \<open>
  The \<open>while s:\<close> loop with its state \<open>(s, result, pospow)\<close>. The loop need not
  end, so the result is an option: \<open>None\<close> is a run that never returns,
  \<open>Some (Inl e)\<close> a raised exception, \<open>Some (Inr r)\<close> the returned list.
\<close>

partial_function (option) parse_loop ::
  "registry \<Rightarrow> string \<Rightarrow> triple list \<Rightarrow> bool \<Rightarrow> (error + triple list) option" where
  "parse_loop reg s result pospow =
     (if s = [] then Some (Inr result)
      else if startswith s ''*'' \<or> startswith s '' '' then
        parse_loop reg (slice_from s 1) result pospow
      else if startswith s ''/'' then
        (if \<not> pospow then Some (Inl ConsecutiveSlashes)
         else parse_loop reg (slice_from s 1) result False)
      else if startswith s ''('' then
        (let end = str_find s CHR '')'' in
         Option.bind (parse_loop reg (slice s 1 end) [] True)
           (\<lambda>r. case r of
                   Inl e \<Rightarrow> Some (Inl e)
                 | Inr inside \<Rightarrow>
                     parse_loop reg (slice_from s (end + 1))
                       (result @ (if \<not> pospow then negate inside else inside)) True))
      else
        (case search_from reg s (length s) of
           None \<Rightarrow> Some (Inl (CannotConvert s))
         | Some (x, thisunit) \<Rightarrow>
             (let s1 = slice_from s (int x) in
              if startswith s1 ''^'' then
                (if length s1 < 2 then Some (Inl IndexError)
                 else (case int_of_char (s1 ! 1) of
                         None \<Rightarrow> Some (Inl ValueError)
                       | Some pwr \<Rightarrow>
                           parse_loop reg (slice_from s1 2)
                             (result @ [(fst thisunit, snd thisunit,
                                         if \<not> pospow then pwr * (- 1) else pwr)])
                             True))
              else
                parse_loop reg s1
                  (result @ [(fst thisunit, snd thisunit,
                              if \<not> pospow then 1 * (- 1) else 1)])
                  True)))"

declare parse_loop.simps [code]

text \<open>The characters the loop handles before it looks for a unit token.\<close>

definition special :: "char \<Rightarrow> bool" where
  "special c = (c = CHR ''*'' \<or> c = CHR '' '' \<or> c = CHR ''/'' \<or> c = CHR ''('')"

definition decomposition_from_pure_string :: "registry \<Rightarrow> string \<Rightarrow> (error + triple list) option" where
  "decomposition_from_pure_string reg s = parse_loop reg s [] True"

section \<open>Algebra on units\<close>

text \<open>
  The operand of an operator method is any Python value: a number, an \<open>SIUnit\<close> or an
  \<open>SICompoundUnit\<close>. A method returns \<open>None\<close> for \<open>NotImplemented\<close>.
\<close>

datatype pyval = Number int | AUnit SIUnit | Compound SICompoundUnit

fun SIUnit_div :: "SIUnit \<Rightarrow> pyval \<Rightarrow> SICompoundUnit option" where
  "SIUnit_div self (AUnit other) = Some [(1, self, 1), (1, other, - 1)]"
| "SIUnit_div self other = None"

fun SIUnit_rdiv :: "SIUnit \<Rightarrow> pyval \<Rightarrow> SICompoundUnit option" where
  "SIUnit_rdiv self (Number n) = (if n = 1 then Some [(1, self, - 1)] else None)"
| "SIUnit_rdiv self other = None"

definition SIUnit_pow :: "SIUnit \<Rightarrow> int \<Rightarrow> SICompoundUnit" where
  "SIUnit_pow self exponent = [(1, self, exponent)]"

fun SIUnit_mul :: "SIUnit \<Rightarrow> pyval \<Rightarrow> SICompoundUnit option" where
  "SIUnit_mul self (AUnit other) = Some [(1, self, 1), (1, other, 1)]"
| "SIUnit_mul self other = None"

fun SICompoundUnit_div :: "SICompoundUnit \<Rightarrow> pyval \<Rightarrow> SICompoundUnit option" where
  "SICompoundUnit_div self (AUnit other) = Some (self @ [(1, other, - 1)])"
| "SICompoundUnit_div self (Compound other) =
     Some (self @ map (\<lambda>(prefix, unit, pwr). (prefix, unit, - pwr)) other)"
| "SICompoundUnit_div self other = None"

fun SICompoundUnit_rdiv :: "SICompoundUnit \<Rightarrow> pyval \<Rightarrow> SICompoundUnit option" where
  "SICompoundUnit_rdiv self (Number n) =
     (if n = 1 then Some (map (\<lambda>(prefix, unit, pwr). (prefix, unit, - pwr)) self) else None)"
| "SICompoundUnit_rdiv self (AUnit other) = Some ([(1, other, - 1)] @ self)"
| "SICompoundUnit_rdiv self other = None"

definition SICompoundUnit_pow :: "SICompoundUnit \<Rightarrow> int \<Rightarrow> SICompoundUnit" where
  "SICompoundUnit_pow self exponent =
     map (\<lambda>(prefix, unit, pwr). (prefix, unit, pwr * exponent)) self"

fun SICompoundUnit_mul :: "SICompoundUnit \<Rightarrow> pyval \<Rightarrow> SICompoundUnit option" where
  "SICompoundUnit_mul self (AUnit other) = Some (self @ [(1, other, 1)])"
| "SICompoundUnit_mul self (Compound other) = Some (self @ other)"
| "SICompoundUnit_mul self other = None"

fun SICompoundUnit_rmul :: "SICompoundUnit \<Rightarrow> pyval \<Rightarrow> SICompoundUnit option" where
  "SICompoundUnit_rmul self (AUnit other) = Some ([(1, other, 1)] @ self)"
| "SICompoundUnit_rmul self other = None"

text \<open>
  The expression \<open>a / b\<close> with a unit on at least one side: Python calls
  \<open>a.__div__(b)\<close> and, when that is missing or answers \<open>NotImplemented\<close>, the reflected
  \<open>b.__rdiv__(a)\<close>. A number's own \<open>__div__\<close> answers \<open>NotImplemented\<close> for a unit.
  \<open>None\<close> is the \<open>TypeError\<close> raised when neither method applies; the quotient of two
  numbers is no operation of this module.
\<close>

definition divide_op :: "pyval \<Rightarrow> pyval \<Rightarrow> SICompoundUnit option" where
  "divide_op a b =
     (case (case a of
              Number n \<Rightarrow> None
            | AUnit u \<Rightarrow> SIUnit_div u b
            | Compound c \<Rightarrow> SICompoundUnit_div c b) of
        Some r \<Rightarrow> Some r
      | None \<Rightarrow>
          (case b of
             Number n \<Rightarrow> None
           | AUnit u \<Rightarrow> SIUnit_rdiv u a
           | Compound c \<Rightarrow> SICompoundUnit_rdiv c a))"

section \<open>Prefix expansion\<close>

definition all_prefixes :: "string list" where
  "all_prefixes = map (\<lambda>c. [c]) ''YZEPTGMkhdcmunpfazy'' @ [''da'']"

definition letters :: string where
  "letters = ''abcdefghijklmnopqrstuvwxyzABCDEFGHIJKLMNOPQRSTUVWXYZ''"

definition valid_python_name :: "pystr \<Rightarrow> bool" where
  "valid_python_name s =
     (length [l \<leftarrow> letters @ ''_''. startswith (chars s) [l]] \<noteq> 0
      \<and> \<not> length [l \<leftarrow> chars s. l \<notin> set (letters @ digits @ ''_'')] \<noteq> 0)"

text \<open>
  \<open>get_python_names\<close> is a generator: it yields every valid symbol; with none, the
  first valid name; with none of either it raises.
\<close>

definition get_python_names :: "SIUnit \<Rightarrow> error + pystr list" where
  "get_python_names self =
     (case filter valid_python_name (symbol self) of
        n # ns \<Rightarrow> Inr (n # ns)
      | [] \<Rightarrow>
          (case List.find valid_python_name (name self) of
             Some n \<Rightarrow> Inr [n]
           | None \<Rightarrow> Inl CannotRegister))"

text \<open>\<open>p + n\<close> for a byte string \<open>p\<close>: the kind of \<open>n\<close> decides the kind of the result.\<close>

fun prepend :: "string \<Rightarrow> pystr \<Rightarrow> pystr" where
  "prepend p (Str n) = Str (p @ n)"
| "prepend p (Uni n) = Uni (p @ n)"

text \<open>Truth value and iteration of the \<open>prefixes\<close> attribute.\<close>

fun truthy :: "prefixes_t \<Rightarrow> bool" where
  "truthy PFalse = False"
| "truthy PTrue = True"
| "truthy (PString s) = (s \<noteq> [])"
| "truthy (PList ps) = (ps \<noteq> [])"

fun iterate :: "prefixes_t \<Rightarrow> string list" where
  "iterate (PString s) = map (\<lambda>c. [c]) s"
| "iterate (PList ps) = ps"
| "iterate p = []"

text \<open>The three iterations that append to \<open>r\<close>, one prefix code at a time.\<close>

fun kg_loop :: "(string \<Rightarrow> rat) \<Rightarrow> rat \<Rightarrow> string list \<Rightarrow> (pystr \<times> rat) list \<Rightarrow> (pystr \<times> rat) list" where
  "kg_loop pv g [] r = r"
| "kg_loop pv g (p # ps) r =
     kg_loop pv g ps (if p \<noteq> ''k'' then r @ [(Str (p @ ''g''), g * pv p)] else r)"

fun power_loop :: "(string \<Rightarrow> rat) \<Rightarrow> rat \<Rightarrow> string \<Rightarrow> nat \<Rightarrow> string list \<Rightarrow> (pystr \<times> rat) list \<Rightarrow> (pystr \<times> rat) list" where
  "power_loop pv u suffix k [] r = r"
| "power_loop pv u suffix k (p # ps) r =
     power_loop pv u suffix k ps (r @ [(Str (p @ suffix), u * pv p ^ k)])"

fun names_loop :: "(string \<Rightarrow> rat) \<Rightarrow> rat \<Rightarrow> string list \<Rightarrow> pystr list \<Rightarrow> (pystr \<times> rat) list \<Rightarrow> (pystr \<times> rat) list" where
  "names_loop pv u pfxs [] r = r"
| "names_loop pv u pfxs (n # ns) r =
     names_loop pv u pfxs ns (r @ map (\<lambda>p. (prepend p n, u * pv p)) pfxs)"

text \<open>
  \<open>get_prefixed\<close>. The first argument is \<open>getattr(si.prefixes, p)\<close>, the value of a
  prefix code in the prefix table, which is outside this module.
\<close>

definition get_prefixed :: "(string \<Rightarrow> rat) \<Rightarrow> SIUnit \<Rightarrow> error + (pystr \<times> rat) list" where
  "get_prefixed pv self =
     (if \<not> truthy (prefixes self) then Inr []
      else if prefixes self = PString ''kg'' then
        (if map chars (name self) \<noteq> [''kilogram''] then Inl AssertionError
         else (let g = unit self / 1000; r = [(Str ''g'', g)]
               in Inr (kg_loop pv g all_prefixes r)))
      else if prefixes self = PString ''m2'' then
        (if map chars (name self) \<noteq> [''square metre''] then Inl AssertionError
         else Inr (power_loop pv (unit self) ''m2'' 2 all_prefixes []))
      else if prefixes self = PString ''m3'' then
        (if map chars (name self) \<noteq> [''cubic metre''] then Inl AssertionError
         else Inr (power_loop pv (unit self) ''m3'' 3 all_prefixes []))
      else
        (let pfxs = (if prefixes self = PTrue then all_prefixes else iterate (prefixes self))
         in case get_python_names self of
              Inl e \<Rightarrow> Inl e
            | Inr ns \<Rightarrow> Inr (names_loop pv (unit self) pfxs ns [])))"

section \<open>Display forms of a unit\<close>

definition istex :: "pystr \<Rightarrow> bool" where
  "istex s = (startswith (chars s) ''$'' \<and> endswith (chars s) ''$'')"

definition preferred_symbol :: "SIUnit \<Rightarrow> bool \<Rightarrow> error + pystr" where
  "preferred_symbol self allow_unicode =
     (if allow_unicode then
        (case List.find (\<lambda>s. \<not> istex s) (symbol self @ name self) of
           Some s \<Rightarrow> Inr s
         | None \<Rightarrow> Inl NoUnicodeSymbol)
      else
        (case List.find (\<lambda>s. \<not> is_unicode s \<and> \<not> istex s) (symbol self @ name self) of
           Some s \<Rightarrow> Inr s
         | None \<Rightarrow> Inl NoAsciiSymbol))"

definition SIUnit_tex :: "SIUnit \<Rightarrow> error + string" where
  "SIUnit_tex self =
     (case List.find istex (symbol self) of
        Some s \<Rightarrow> Inr (slice (chars s) 1 (- 1))
      | None \<Rightarrow>
          (case preferred_symbol self False of
             Inl e \<Rightarrow> Inl e
           | Inr s \<Rightarrow> Inr (chars s)))"

section \<open>Rendering a compound unit\<close>

text \<open>\<open>'%s' % power\<close> for an integer: its decimal digits, with a sign when negative.\<close>

fun decimal :: "nat \<Rightarrow> string" where
  "decimal n = (if n div 10 = 0 then [] else decimal (n div 10)) @ [digits ! (n mod 10)]"

declare decimal.simps [simp del]

definition percent_s :: "int \<Rightarrow> string" where
  "percent_s i = (if 0 \<le> i then decimal (nat i) else CHR ''-'' # decimal (nat (- i)))"

text \<open>
  \<open>si.prefixes.prefix_from_value(value, tex)\<close> is outside this module. The renderers
  take it as a parameter; \<open>None\<close> is its failure on a value that is no prefix.
\<close>

type_synonym prefix_namer = "rat \<Rightarrow> bool \<Rightarrow> string option"

text \<open>
  \<open>__str__\<close>: one pass of the loop over the triples for each equation, \<open>ret\<close> the
  string assembled so far.
\<close>

fun str_loop :: "prefix_namer \<Rightarrow> SICompoundUnit \<Rightarrow> string \<Rightarrow> error + string" where
  "str_loop pfv [] ret = Inr ret"
| "str_loop pfv ((prefix, u, pwr) # rest) ret =
     (let pwr1 = (if pwr < 0 then pwr * - 1 else pwr);
          ret1 = (if pwr < 0 then ret @ ''/'' else ret)
      in case (if map chars (name u) = [''kilogram''] then
                 (case (if prefix * 1000 \<noteq> 1 then pfv (prefix * 1000) False else Some [])
                  of None \<Rightarrow> Inl PrefixError
                   | Some p \<Rightarrow> Inr (ret1 @ p @ ''g''))
               else
                 (case (if prefix \<noteq> 1 then pfv prefix False else Some [])
                  of None \<Rightarrow> Inl PrefixError
                   | Some p \<Rightarrow>
                       (case preferred_symbol u True of
                          Inl e \<Rightarrow> Inl e
                        | Inr sy \<Rightarrow> Inr (ret1 @ p @ chars sy))))
         of Inl e \<Rightarrow> Inl e
          | Inr ret2 \<Rightarrow>
              str_loop pfv rest
                (if pwr1 \<noteq> 1 then ret2 @ ''^'' @ percent_s pwr1 else ret2))"

definition SICompoundUnit_str :: "prefix_namer \<Rightarrow> SICompoundUnit \<Rightarrow> error + string" where
  "SICompoundUnit_str pfv self =
     (case str_loop pfv self [] of
        Inl e \<Rightarrow> Inl e
      | Inr ret \<Rightarrow> Inr (if startswith ret ''/'' then ''1'' @ ret else ret))"

text \<open>
  \<open>tex\<close>: the kilogram is replaced by the local class \<open>fakegram\<close>, whose \<open>tex()\<close> is
  \<open>'g'\<close>.
\<close>

datatype tex_unit = Real SIUnit | Fakegram

type_synonym tex_triple = "rat \<times> tex_unit \<times> int"

definition fixed_units :: "SICompoundUnit \<Rightarrow> tex_triple list" where
  "fixed_units self =
     map (\<lambda>(f, u, e). if map chars (name u) \<noteq> [''kilogram''] then (f, Real u, e)
                        else (f * 1000, Fakegram, e)) self"

definition numerator :: "tex_triple list \<Rightarrow> tex_triple list" where
  "numerator fu = map (\<lambda>(f, u, e). (f, u, e)) (filter (\<lambda>(f, u, e). e > 0) fu)"

definition denominator :: "tex_triple list \<Rightarrow> tex_triple list" where
  "denominator fu = map (\<lambda>(f, u, e). (f, u, - e)) (filter (\<lambda>(f, u, e). e < 0) fu)"

fun unit_tex :: "tex_unit \<Rightarrow> error + string" where
  "unit_tex (Real u) = SIUnit_tex u"
| "unit_tex Fakegram = Inr ''g''"

text \<open>The two list comprehensions that build \<open>(prefix, symbol, exponent)\<close> strings.\<close>

fun term_strings :: "prefix_namer \<Rightarrow> tex_triple list \<Rightarrow> error + (string \<times> string \<times> string option) list" where
  "term_strings pfv [] = Inr []"
| "term_strings pfv ((f, u, e) # rest) =
     (case (if f \<noteq> 1 then pfv f True else Some []) of
        None \<Rightarrow> Inl PrefixError
      | Some p \<Rightarrow>
          (case unit_tex u of
             Inl err \<Rightarrow> Inl err
           | Inr t \<Rightarrow>
               (case term_strings pfv rest of
                  Inl err \<Rightarrow> Inl err
                | Inr ts \<Rightarrow>
                    Inr ((p, t, if e \<noteq> 1 then Some (''^'' @ percent_s e) else None) # ts))))"

fun format_term :: "string \<times> string \<times> string option \<Rightarrow> string" where
  "format_term (f, u, Some e) = ''{'' @ f @ u @ ''}'' @ e"
| "format_term (f, u, None) = f @ u"

fun join :: "string \<Rightarrow> string list \<Rightarrow> string" where
  "join sep [] = []"
| "join sep [x] = x"
| "join sep (x # y # ys) = x @ sep @ join sep (y # ys)"

definition over :: string where
  "over = [CHR 0x5C] @ ''over''"

definition SICompoundUnit_tex :: "prefix_namer \<Rightarrow> SICompoundUnit \<Rightarrow> error + string" where
  "SICompoundUnit_tex pfv self =
     (let fu = fixed_units self
      in case term_strings pfv (numerator fu) of
           Inl e \<Rightarrow> Inl e
         | Inr numerator_strings \<Rightarrow>
             (case term_strings pfv (denominator fu) of
                Inl e \<Rightarrow> Inl e
              | Inr denominator_strings \<Rightarrow>
                  (let numerator_string0 = join '' '' (map format_term numerator_strings);
                       denominator_string = join '' '' (map format_term denominator_strings);
                       numerator_string =
                         (if numerator_string0 = [] then ''1'' else numerator_string0)
                   in if denominator fu \<noteq> [] then
                        Inr (''{'' @ numerator_string @ '' '' @ over @ '' ''
                             @ denominator_string @ ''}'')
                      else Inr (''{'' @ numerator_string @ ''}''))))"

section \<open>A small registry and prefix table\<close>

text \<open>
  Modelled from the spec: the prefix table \<open>si.prefixes\<close> (\<open>prefix_value\<close>, a value for
  each of the standard codes) is not part of this module. The table below gives the
  standard SI values of the codes listed in \<open>all_prefixes\<close>.
\<close>

definition prefix_table :: "(string \<times> rat) list" where
  "prefix_table =
     [(''Y'', 10 ^ 24), (''Z'', 10 ^ 21), (''E'', 10 ^ 18), (''P'', 10 ^ 15),
      (''T'', 10 ^ 12), (''G'', 10 ^ 9), (''M'', 10 ^ 6), (''k'', 1000),
      (''h'', 100), (''d'', 1 / 10), (''c'', 1 / 100), (''m'', 1 / 1000),
      (''u'', 1 / 10 ^ 6), (''n'', 1 / 10 ^ 9), (''p'', 1 / 10 ^ 12),
      (''f'', 1 / 10 ^ 15), (''a'', 1 / 10 ^ 18), (''z'', 1 / 10 ^ 21),
      (''y'', 1 / 10 ^ 24), (''da'', 10)]"


text \<open>
  The value of a prefix code, \<open>getattr(si.prefixes, p)\<close>. Every code that
  \<open>all_prefixes\<close> lists is in the table; the value given to any other string is never
  looked at.
\<close>

definition prefix_value :: "string \<Rightarrow> rat" where
  "prefix_value p = (case map_of prefix_table p of Some v \<Rightarrow> v | None \<Rightarrow> 0)"

definition metre :: SIUnit where
  "metre = \<lparr>unit = 1, symbol = [Str ''m''], name = [Str ''metre'', Str ''meter''],
     description = ''unit of length'', prefixes = PTrue\<rparr>"

definition kilogram :: SIUnit where
  "kilogram = \<lparr>unit = 1, symbol = [Str ''kg''], name = [Str ''kilogram''],
     description = ''unit of mass'', prefixes = PString ''kg''\<rparr>"

definition second :: SIUnit where
  "second = \<lparr>unit = 1, symbol = [Str ''s''], name = [Str ''second''],
     description = ''unit of time'', prefixes = PTrue\<rparr>"

definition newton :: SIUnit where
  "newton = \<lparr>unit = 1, symbol = [Str ''N''], name = [Str ''newton''],
     description = ''unit of force'', prefixes = PTrue\<rparr>"

definition hour :: SIUnit where
  "hour = \<lparr>unit = 3600, symbol = [Str ''h''], name = [Str ''hour''],
     description = ''60 minutes'', prefixes = PFalse\<rparr>"

text \<open>The symbols of the five units, and the spellings that take a prefix code.\<close>

definition bare_units :: "(string \<times> SIUnit) list" where
  "bare_units = [(''m'', metre), (''kg'', kilogram), (''s'', second), (''N'', newton),
     (''h'', hour)]"

definition prefixed_units :: "(string \<times> rat \<times> SIUnit) list" where
  "prefixed_units = [(''m'', 1, metre), (''s'', 1, second), (''N'', 1, newton),
     (''g'', 1 / 1000, kilogram)]"

definition split_prefixed :: "string \<Rightarrow> nat \<Rightarrow> (rat \<times> SIUnit) option" where
  "split_prefixed tok n =
     (case (map_of prefix_table (take n tok), map_of prefixed_units (drop n tok)) of
        (Some f, Some (g, u)) \<Rightarrow> Some (f * g, u)
      | _ \<Rightarrow> None)"

text \<open>
  Modelled from the spec: \<open>si.register.search_prefixed\<close> is not part of this module.
  It resolves a possibly prefixed spelling to \<open>(prefix_factor, unit)\<close> and fails when no
  combination of a known prefix and a known unit matches. This registry knows five
  units; a bare symbol resolves with factor 1, a prefix code followed by the symbol of a
  unit that takes prefixes resolves with the prefix value, and the gram spellings resolve
  to the kilogram with a factor relative to it.
\<close>

definition search_prefixed :: registry where
  "search_prefixed tok =
     (case map_of bare_units tok of
        Some u \<Rightarrow> Some (1, u)
      | None \<Rightarrow>
          (if tok = ''g'' then Some (1 / 1000, kilogram)
           else (case split_prefixed tok 1 of
                   Some r \<Rightarrow> Some r
                 | None \<Rightarrow> split_prefixed tok 2)))"

section \<open>One pass of the parser's loop\<close>

text \<open>
  Each lemma unfolds the loop once, for one kind of first character of the remaining
  input.
\<close>

lemma slice_from_nat: "slice_from s (int x) = drop x s"
  by (simp add: slice_from_def bound_def min_def)

lemma find_from_absent: "c \<notin> set s \<Longrightarrow> find_from c s i = - 1"
  by (induction s arbitrary: i) auto


lemma slice_unmatched: "s \<noteq> [] \<Longrightarrow> slice s 1 (- 1) = butlast (tl s)"
  by (cases s) (auto simp: slice_def bound_def butlast_conv_take)

lemma parse_loop_Nil: "parse_loop reg [] result pospow = Some (Inr result)"
  by (subst parse_loop.simps) simp

lemma parse_loop_sep:
  "c = CHR ''*'' \<or> c = CHR '' '' \<Longrightarrow> parse_loop reg (c # s) result pospow = parse_loop reg s result pospow"
  by (subst parse_loop.simps) (auto simp: startswith_def slice_from_def bound_def)

lemma parse_loop_slash:
  "parse_loop reg (CHR ''/'' # s) result pospow =
     (if pospow then parse_loop reg s result False else Some (Inl ConsecutiveSlashes))"
  by (subst parse_loop.simps) (auto simp: startswith_def slice_from_def bound_def)


lemma after_token:
  "(if startswith s1 ''^'' then
      (if length s1 < 2 then A
       else (case int_of_char (s1 ! 1) of None \<Rightarrow> B | Some pwr \<Rightarrow> F (slice_from s1 2) pwr))
    else G s1) =
   (case s1 of
      [] \<Rightarrow> G []
    | d # ds \<Rightarrow>
        if d = CHR ''^'' then
          (case ds of
             [] \<Rightarrow> A
           | e # es \<Rightarrow> (case int_of_char e of None \<Rightarrow> B | Some pwr \<Rightarrow> F es pwr))
        else G (d # ds))"
proof (cases s1)
  case Nil
  then show ?thesis by (simp add: startswith_def)
next
  case (Cons d ds)
  show ?thesis
  proof (cases ds)
    case Nil
    with Cons show ?thesis by (simp add: startswith_def)
  next
    case (Cons e es)
    have "slice_from (d # e # es) 2 = es" by (simp add: slice_from_def bound_def)
    with Cons \<open>s1 = d # ds\<close> show ?thesis
      by (auto simp: startswith_def split: option.split)
  qed
qed

lemma parse_loop_token:
  assumes "\<not> special c"
  shows "parse_loop reg (c # s) result pospow =
     (case search_from reg (c # s) (Suc (length s)) of
           None \<Rightarrow> Some (Inl (CannotConvert (c # s)))
         | Some (x, p, u) \<Rightarrow>
             (case drop x (c # s) of
                [] \<Rightarrow> parse_loop reg [] (result @ [(p, u, if pospow then 1 else - 1)]) True
              | d # ds \<Rightarrow>
                  if d = CHR ''^'' then
                    (case ds of
                       [] \<Rightarrow> Some (Inl IndexError)
                     | e # es \<Rightarrow>
                         (case int_of_char e of
                            None \<Rightarrow> Some (Inl ValueError)
                          | Some pwr \<Rightarrow> parse_loop reg es (result @ [(p, u, if pospow then pwr else - pwr)]) True))
                  else parse_loop reg (d # ds) (result @ [(p, u, if pospow then 1 else - 1)]) True))"
proof -
  from assms have hd: "\<not> startswith (c # s) ''*''" "\<not> startswith (c # s) '' ''"
    "\<not> startswith (c # s) ''/''" "\<not> startswith (c # s) ''(''"
    by (auto simp: special_def startswith_def)
  show ?thesis
  proof (cases "search_from reg (c # s) (Suc (length s))")
    case None
    then show ?thesis by (subst parse_loop.simps) (simp add: hd)
  next
    case (Some r)
    obtain x p u where r: "r = (x, p, u)" by (cases r) auto
    have "parse_loop reg (c # s) result pospow =
       (let s1 = drop x (c # s) in
              if startswith s1 ''^'' then
                (if length s1 < 2 then Some (Inl IndexError)
                 else (case int_of_char (s1 ! 1) of
                         None \<Rightarrow> Some (Inl ValueError)
                       | Some pwr \<Rightarrow>
                           parse_loop reg (slice_from s1 2)
                             (result @ [(p, u, if pospow then pwr else - pwr)])
                             True))
              else
                parse_loop reg s1 (result @ [(p, u, if pospow then 1 else - 1)]) True)"
      using Some r
      by (subst parse_loop.simps, cases pospow)
        (simp_all add: hd slice_from_nat Let_def del: search_from.simps
           cong: option.case_cong if_cong)
    also have "\<dots> = (case drop x (c # s) of
                [] \<Rightarrow> parse_loop reg [] (result @ [(p, u, if pospow then 1 else - 1)]) True
              | d # ds \<Rightarrow>
                  if d = CHR ''^'' then
                    (case ds of
                       [] \<Rightarrow> Some (Inl IndexError)
                     | e # es \<Rightarrow>
                         (case int_of_char e of
                            None \<Rightarrow> Some (Inl ValueError)
                          | Some pwr \<Rightarrow> parse_loop reg es (result @ [(p, u, if pospow then pwr else - pwr)]) True))
                  else parse_loop reg (d # ds) (result @ [(p, u, if pospow then 1 else - 1)]) True)"
      unfolding Let_def
      by (rule after_token[where F = "\<lambda>rest pwr. parse_loop reg rest (result @ [(p, u, if pospow then pwr else - pwr)]) True"
            and G = "\<lambda>s1. parse_loop reg s1 (result @ [(p, u, if pospow then 1 else - 1)]) True"])
    finally show ?thesis using Some r by simp
  qed
qed

lemma search_from_longest:
  assumes "reg (take n s) = Some pu" "\<forall>k. n < k \<and> k \<le> m \<longrightarrow> reg (take k s) = None" "0 < n" "n \<le> m"
  shows "search_from reg s m = Some (n, pu)"
  using assms
proof (induction m)
  case 0
  then show ?case by simp
next
  case (Suc m)
  show ?case
  proof (cases "n = Suc m")
    case True
    with Suc.prems show ?thesis by simp
  next
    case False
    with Suc.prems have "n \<le> m" by simp
    moreover from Suc.prems False have "reg (take (Suc m) s) = None" by simp
    ultimately show ?thesis using Suc by simp
  qed
qed


section \<open>An opening parenthesis with no closing one\<close>

text \<open>
  When \<open>s.find(")")\<close> answers \<open>-1\<close>, the recursive call parses \<open>s[1:-1]\<close> and the
  loop continues with \<open>s[0:]\<close>, the same string. Whatever the loop returns from such a
  state is the exception of that recursive call.
\<close>

lemma parse_loop_below:
  assumes "parse_loop reg s result pospow = Some y"
  shows "(startswith s ''('' \<and> CHR '')'' \<notin> set s \<longrightarrow>
           (\<exists>e. y = Inl e \<and> parse_loop reg (butlast (tl s)) [] True = Some (Inl e)))"
proof -
  define P where "P = (\<lambda>reg s result pospow y. parse_loop reg s result pospow = Some y \<and> (startswith s ''('' \<and> CHR '')'' \<notin> set s \<longrightarrow>
           (\<exists>e. y = Inl e \<and> parse_loop reg (butlast (tl s)) [] True = Some (Inl e))))"
  have "P reg s result pospow y"
  proof (rule parse_loop.raw_induct[where P = P, OF _ assms], goal_cases)
    case (1 f reg s result pospow y)
    have le: "\<And>r s res pp z. f r s res pp = Some z \<Longrightarrow> parse_loop r s res pp = Some z"
      using 1(1) unfolding P_def by blast
    have a: "parse_loop reg s result pospow = Some y"
      using 1(2) 
      apply (subst parse_loop.simps)
      apply (auto split: if_splits option.splits sum.splits prod.splits simp: Let_def bind_eq_Some_conv dest!: le)
      done
    have b: "\<exists>e. y = Inl e \<and> parse_loop reg (butlast (tl s)) [] True = Some (Inl e)"
      if h: "startswith s ''(''" "CHR '')'' \<notin> set s"
    proof -
      from h have ne: "s \<noteq> []" by (auto simp: startswith_def)
      from h have fnd: "str_find s CHR '')'' = - 1" by (simp add: str_find_def find_from_absent)
      from h have hd: "\<not> startswith s ''*''" "\<not> startswith s '' ''" "\<not> startswith s ''/''"
        by (cases s; auto simp: startswith_def)+
      have sf: "slice_from s 0 = s" by (simp add: slice_from_def bound_def)
      from 1(2) obtain r where r: "f reg (butlast (tl s)) [] True = Some r"
        and rest: "(case r of Inl e \<Rightarrow> Some (Inl e) | Inr inside \<Rightarrow> f reg s (result @ (if \<not> pospow then negate inside else inside)) True) = Some y"
        using ne h(1) hd fnd sf by (auto simp: Let_def slice_unmatched bind_eq_Some_conv)
      show ?thesis
      proof (cases r)
        case (Inl e)
        with r rest le show ?thesis by auto
      next
        case (Inr inside)
        with rest have "f reg s (result @ (if \<not> pospow then negate inside else inside)) True = Some y" by simp
        from 1(1)[OF this] h show ?thesis unfolding P_def by blast
      qed
    qed
    from a b show ?case unfolding P_def by blast
  qed
  then show ?thesis unfolding P_def by simp
qed

lemma unmatched_paren:
  assumes "startswith s ''(''" "CHR '')'' \<notin> set s"
  shows "parse_loop reg s result pospow =
          (case parse_loop reg (butlast (tl s)) [] True of
             Some (Inl e) \<Rightarrow> Some (Inl e) | _ \<Rightarrow> None)"
proof (cases "parse_loop reg s result pospow")
  case None
  have "parse_loop reg (butlast (tl s)) [] True \<noteq> Some (Inl e)" for e
  proof
    assume e: "parse_loop reg (butlast (tl s)) [] True = Some (Inl e)"
    from assms have ne: "s \<noteq> []" by (auto simp: startswith_def)
    from assms have fnd: "str_find s CHR '')'' = - 1" by (simp add: str_find_def find_from_absent)
    from assms have hd: "\<not> startswith s ''*''" "\<not> startswith s '' ''" "\<not> startswith s ''/''"
      by (cases s; auto simp: startswith_def)+
    have "parse_loop reg s result pospow = Some (Inl e)"
      by (subst parse_loop.simps) (simp add: ne hd assms fnd slice_unmatched e)
    with None show False by simp
  qed
  with None show ?thesis by (auto split: option.splits sum.splits)
next
  case (Some y)
  from parse_loop_below[OF Some] assms show ?thesis using Some by auto
qed

section \<open>The parser on the documented example\<close>

text \<open>
  Claim C1. Parsing \<open>"kgNkm/m"\<close> returns \<open>[(1, kilogram, 1), (1, newton, 1),
  (1000, metre, 1), (1, metre, -1)]\<close> in this order. The registry is a parameter, so the
  statement names what it must answer: \<open>"kg"\<close>, \<open>"N"\<close>, \<open>"km"\<close> and \<open>"m"\<close> resolve to
  the kilogram, the newton, 1000 metres and the metre, and no longer beginning of the
  remaining input resolves at any of the three token positions.
\<close>

theorem parse_kgNkm_per_m:
  assumes "reg ''kg'' = Some (1, kg)" "reg ''N'' = Some (1, nw)"
    "reg ''km'' = Some (1000, m)" "reg ''m'' = Some (1, m)"
    and "\<forall>t \<in> {''kgNkm/m'', ''kgNkm/'', ''kgNkm'', ''kgNk'', ''kgN'',
               ''Nkm/m'', ''Nkm/'', ''Nkm'', ''Nk'', ''km/m'', ''km/''}. reg t = None"
  shows "decomposition_from_pure_string reg ''kgNkm/m'' =
           Some (Inr [(1, kg, 1), (1, nw, 1), (1000, m, 1), (1, m, - 1)])"
proof -
  have n: "reg ''kgNkm/m'' = None" "reg ''kgNkm/'' = None" "reg ''kgNkm'' = None"
    "reg ''kgNk'' = None" "reg ''kgN'' = None" "reg ''Nkm/m'' = None" "reg ''Nkm/'' = None"
    "reg ''Nkm'' = None" "reg ''Nk'' = None" "reg ''km/m'' = None" "reg ''km/'' = None"
    using assms(5) by simp_all
  note r = assms(1-4) n
  have "parse_loop reg ''kgNkm/m'' [] True = parse_loop reg ''Nkm/m'' [(1, kg, 1)] True"
    by (subst parse_loop_token) (simp_all add: special_def r)
  also have "\<dots> = parse_loop reg ''km/m'' [(1, kg, 1), (1, nw, 1)] True"
    by (subst parse_loop_token) (simp_all add: special_def r)
  also have "\<dots> = parse_loop reg ''/m'' [(1, kg, 1), (1, nw, 1), (1000, m, 1)] True"
    by (subst parse_loop_token) (simp_all add: special_def r)
  also have "\<dots> = parse_loop reg ''m'' [(1, kg, 1), (1, nw, 1), (1000, m, 1)] False"
    by (simp add: parse_loop_slash)
  also have "\<dots> = Some (Inr [(1, kg, 1), (1, nw, 1), (1000, m, 1), (1, m, - 1)])"
    by (subst parse_loop_token) (simp_all add: special_def r parse_loop_Nil)
  finally show ?thesis by (simp add: decomposition_from_pure_string_def)
qed

theorem parse_kgNkm_per_m_witness: "decomposition_from_pure_string search_prefixed ''kgNkm/m'' =
           Some (Inr [(1, kilogram, 1), (1, newton, 1), (1000, metre, 1), (1, metre, - 1)])"
proof -
  have "search_prefixed ''kg'' = Some (1, kilogram)" by code_simp
  moreover have "search_prefixed ''N'' = Some (1, newton)" by code_simp
  moreover have "search_prefixed ''km'' = Some (1000, metre)" by code_simp
  moreover have "search_prefixed ''m'' = Some (1, metre)" by code_simp
  moreover have "\<forall>t \<in> {''kgNkm/m'', ''kgNkm/'', ''kgNkm'', ''kgNk'', ''kgN'',
               ''Nkm/m'', ''Nkm/'', ''Nkm'', ''Nk'', ''km/m'', ''km/''}. search_prefixed t = None"
    by code_simp
  ultimately show ?thesis by (rule parse_kgNkm_per_m)
qed

section \<open>Termination\<close>

text \<open>
  Claim C2. The claim is that the parser returns or raises on every input. On the input
  \<open>"("\<close> it does neither, whatever the registry: the loop comes back to the same state
  for ever.
\<close>

theorem lone_parenthesis_never_returns: "decomposition_from_pure_string reg ''('' = None"
  unfolding decomposition_from_pure_string_def
  by (subst unmatched_paren) (simp_all add: startswith_def parse_loop.simps)

lemma parse_m_slash: "parse_loop search_prefixed ''m/'' [] True = Some (Inr [(1, metre, 1)])"
  by code_simp

text \<open>
  Claim C3. The claim is that an opening parenthesis with no closing one is rejected
  with an error. On \<open>"(m/s"\<close>, with a registry that knows the metre, the recursive call
  on \<open>"m/"\<close> returns and the loop never ends: no error is raised.
\<close>

theorem unmatched_group_never_returns: "decomposition_from_pure_string search_prefixed ''(m/s'' = None"
  unfolding decomposition_from_pure_string_def
  by (subst unmatched_paren) (simp_all add: startswith_def parse_m_slash)

section \<open>Slashes\<close>

text \<open>
  Claim C7. Whenever the remaining input is a slash, any number of the ignored
  separators \<open>*\<close> and space, and a second slash, the parser raises the exception
  "Consecutive slashes don't make sense", from every state of the loop.
\<close>

theorem consecutive_slashes_rejected: "set seps \<subseteq> {CHR ''*'', CHR '' ''} \<Longrightarrow>
   parse_loop reg (CHR ''/'' # seps @ CHR ''/'' # rest) result pospow = Some (Inl ConsecutiveSlashes)"
proof -
  assume seps: "set seps \<subseteq> {CHR ''*'', CHR '' ''}"
  have inner: "parse_loop reg (seps @ CHR ''/'' # rest) result False = Some (Inl ConsecutiveSlashes)"
    using seps
  proof (induction seps)
    case Nil
    show ?case by (simp add: parse_loop_slash)
  next
    case (Cons c seps)
    then have "c = CHR ''*'' \<or> c = CHR '' ''" by auto
    then have "parse_loop reg ((c # seps) @ CHR ''/'' # rest) result False =
               parse_loop reg (seps @ CHR ''/'' # rest) result False"
      by (simp add: parse_loop_sep)
    with Cons show ?case by simp
  qed
  then show ?thesis by (simp add: parse_loop_slash)
qed

theorem consecutive_slashes_rejected_witness:
  "set [] \<subseteq> {CHR ''*'', CHR '' ''} \<and>
   decomposition_from_pure_string search_prefixed ''m//s'' = Some (Inl ConsecutiveSlashes)"
proof -
  have sf: "search_from search_prefixed ''m//s'' (Suc (Suc (Suc (Suc 0)))) = Some (1, 1, metre)"
    by code_simp
  have "parse_loop search_prefixed ''m//s'' [] True =
        parse_loop search_prefixed (CHR ''/'' # [] @ CHR ''/'' # ''s'') [(1, metre, 1)] True"
    by (subst parse_loop_token) (simp_all add: special_def sf del: search_from.simps)
  then show ?thesis
    using consecutive_slashes_rejected [of "[]" search_prefixed "''s''" "[(1, metre, 1)]" True]
    by (simp add: decomposition_from_pure_string_def)
qed

section \<open>The exponent shorthand at the end of the input\<close>

text \<open>
  Claim C10. When a matched unit token is followed by \<open>^\<close> as the last character, the
  parser raises \<open>IndexError\<close>: it reads \<open>s[1]\<close> of the one-character string \<open>"^"\<close>. The
  token \<open>tok\<close> is the match when the registry resolves it and does not resolve the whole
  remaining input \<open>tok ^\<close>.
\<close>

theorem caret_at_end_index_error:
  assumes "tok \<noteq> []" "\<not> special (hd tok)" "reg tok = Some (p, u)" "reg (tok @ ''^'') = None"
  shows "parse_loop reg (tok @ ''^'') result pospow = Some (Inl IndexError)"
proof -
  obtain c cs where tok: "tok = c # cs" using assms(1) by (cases tok) auto
  have "search_from reg (tok @ ''^'') (Suc (length tok)) = Some (length tok, p, u)"
    using assms by (intro search_from_longest) (auto simp: le_Suc_eq)
  then have sf: "search_from reg (c # cs @ ''^'') (Suc (Suc (length cs))) = Some (Suc (length cs), p, u)"
    by (simp add: tok del: search_from.simps)
  have "parse_loop reg (c # cs @ ''^'') result pospow = Some (Inl IndexError)"
    using assms(2) by (subst parse_loop_token) (simp_all add: tok sf del: search_from.simps)
  then show ?thesis by (simp add: tok)
qed

theorem caret_at_end_index_error_witness:
  "''m'' \<noteq> [] \<and> \<not> special (hd ''m'') \<and> search_prefixed ''m'' = Some (1, metre)
   \<and> search_prefixed ''m^'' = None
   \<and> decomposition_from_pure_string search_prefixed ''m^'' = Some (Inl IndexError)"
proof -
  have a: "search_prefixed ''m'' = Some (1, metre)" by code_simp
  have b: "search_prefixed (''m'' @ ''^'') = None" by code_simp
  have c: "\<not> special (hd ''m'')" by (simp add: special_def)
  have "parse_loop search_prefixed (''m'' @ ''^'') [] True = Some (Inl IndexError)"
    using caret_at_end_index_error [of "''m''" search_prefixed 1 metre "[]" True] a b c by simp
  with a b c show ?thesis by (simp add: decomposition_from_pure_string_def)
qed

section \<open>Powers of a compound unit\<close>

text \<open>
  Claim C8. Raising a compound unit to the power 2 and then 3 gives the same tuple as
  raising it to the power 6, which is the tuple with every exponent multiplied by 6. In
  general one power multiplies every exponent by its argument, two powers multiply it by
  the product of the two, and the prefix factors and the units stay as they are.
\<close>

theorem pow_pow: "SICompoundUnit_pow (SICompoundUnit_pow A 2) 3 = SICompoundUnit_pow A 6
  \<and> SICompoundUnit_pow (SICompoundUnit_pow A 2) 3 = map (\<lambda>(prefix, u, e). (prefix, u, e * 6)) A
  \<and> SICompoundUnit_pow (SICompoundUnit_pow A m) n = SICompoundUnit_pow A (m * n)
  \<and> SICompoundUnit_pow (SICompoundUnit_pow A m) n =
      map (\<lambda>(prefix, u, e). (prefix, u, e * (m * n))) A
  \<and> SICompoundUnit_pow A m = map (\<lambda>(prefix, u, e). (prefix, u, e * m)) A
  \<and> map fst (SICompoundUnit_pow A m) = map fst A
  \<and> map (fst \<circ> snd) (SICompoundUnit_pow A m) = map (fst \<circ> snd) A"
  by (induction A) (auto simp: SICompoundUnit_pow_def)

section \<open>Parenthesized groups\<close>




section \<open>Division\<close>

text \<open>
  Claim C5. The claim is that \<open>u / C\<close> is the triple \<open>(1, u, 1)\<close> followed by the triples
  of \<open>C\<close> with negated exponents, and \<open>C / u\<close> the triples of \<open>C\<close> followed by
  \<open>(1, u, -1)\<close>. \<open>C / u\<close> is as claimed. For \<open>u / C\<close> Python falls back to the reflected
  \<open>SICompoundUnit.__rdiv__\<close>, which negates the exponent of \<open>u\<close> and leaves \<open>C\<close> as it
  is: metre divided by second comes out as second per metre.
\<close>

theorem unit_over_compound: "divide_op (AUnit metre) (Compound [(1, second, 1)]) = Some [(1, metre, - 1), (1, second, 1)]
  \<and> divide_op (AUnit u) (Compound C) = Some ((1, u, - 1) # C)
  \<and> divide_op (Compound C) (AUnit u) = Some (C @ [(1, u, - 1)])"
  by (simp add: divide_op_def)

section \<open>Prefixes of the kilogram\<close>

lemma kg_loop_eq: "kg_loop pv g ps r = r @ map (\<lambda>p. (Str (p @ ''g''), g * pv p)) (filter (\<lambda>p. p \<noteq> ''k'') ps)"
  by (induction ps arbitrary: r) auto

text \<open>
  Claim C6. For the kilogram (\<open>prefixes == "kg"\<close>, \<open>name == ["kilogram"]\<close>),
  \<open>get_prefixed\<close> returns the pair for \<open>"g"\<close> with a thousandth of the unit's value,
  then, in the order of \<open>all_prefixes\<close> and leaving out \<open>"k"\<close>, the pair of the prefix
  code followed by \<open>"g"\<close> with that value times the value of the prefix. No name in the
  list contains \<open>"kg"\<close>.
\<close>

theorem kilogram_prefixed:
  assumes "prefixes self = PString ''kg''" "map chars (name self) = [''kilogram'']"
  shows "get_prefixed pv self =
           Inr ((Str ''g'', unit self / 1000) #
                map (\<lambda>p. (Str (p @ ''g''), unit self / 1000 * pv p))
                  (filter (\<lambda>p. p \<noteq> ''k'') all_prefixes))
         \<and> (\<forall>r. get_prefixed pv self = Inr r \<longrightarrow>
               (\<forall>(n, v) \<in> set r. \<not> contains (chars n) ''kg''))"
proof -
  have eq: "get_prefixed pv self =
           Inr ((Str ''g'', unit self / 1000) #
                map (\<lambda>p. (Str (p @ ''g''), unit self / 1000 * pv p))
                  (filter (\<lambda>p. p \<noteq> ''k'') all_prefixes))"
    using assms by (simp add: get_prefixed_def Let_def kg_loop_eq)
  have "\<forall>p \<in> set (filter (\<lambda>p. p \<noteq> ''k'') all_prefixes). \<not> contains (p @ ''g'') ''kg''"
    by (simp add: all_prefixes_def startswith_def)
  then show ?thesis unfolding eq by (auto simp: startswith_def)
qed

theorem kilogram_prefixed_witness: "prefixes kilogram = PString ''kg'' \<and> map chars (name kilogram) = [''kilogram'']
  \<and> get_prefixed prefix_value kilogram =
     Inr [(Str ''g'', 1 / 1000), (Str ''Yg'', 10 ^ 21), (Str ''Zg'', 10 ^ 18),
          (Str ''Eg'', 10 ^ 15), (Str ''Pg'', 10 ^ 12), (Str ''Tg'', 10 ^ 9),
          (Str ''Gg'', 10 ^ 6), (Str ''Mg'', 1000), (Str ''hg'', 1 / 10),
          (Str ''dg'', 1 / 10 ^ 4), (Str ''cg'', 1 / 10 ^ 5), (Str ''mg'', 1 / 10 ^ 6),
          (Str ''ug'', 1 / 10 ^ 9), (Str ''ng'', 1 / 10 ^ 12), (Str ''pg'', 1 / 10 ^ 15),
          (Str ''fg'', 1 / 10 ^ 18), (Str ''ag'', 1 / 10 ^ 21), (Str ''zg'', 1 / 10 ^ 24),
          (Str ''yg'', 1 / 10 ^ 27), (Str ''dag'', 1 / 100)]"
proof -
  have a: "prefixes kilogram = PString ''kg''" by (simp add: kilogram_def)
  have b: "map chars (name kilogram) = [''kilogram'']" by (simp add: kilogram_def)
  from kilogram_prefixed[OF a b, of prefix_value] have
    "get_prefixed prefix_value kilogram =
           Inr ((Str ''g'', unit kilogram / 1000) #
                map (\<lambda>p. (Str (p @ ''g''), unit kilogram / 1000 * prefix_value p))
                  (filter (\<lambda>p. p \<noteq> ''k'') all_prefixes))" by blast
  then show ?thesis using a b
    by (simp add: all_prefixes_def prefix_value_def prefix_table_def kilogram_def)
qed

section \<open>Rendering a reciprocal\<close>







text \<open>
  The empty compound unit is no reciprocal: its plain text is the empty string and its
  TeX form \<open>{1}\<close>.
\<close>

lemma empty_compound_rendering:
  "SICompoundUnit_str pfv [] = Inr [] \<and> SICompoundUnit_tex pfv [] = Inr ''{1}''"
  by (simp add: SICompoundUnit_str_def SICompoundUnit_tex_def startswith_def fixed_units_def
      numerator_def denominator_def)



end
